theory Spec2Isabelle
  imports Main
begin

section \<open>Python values\<close>

text \<open>
  \<^verbatim>\<open>Transfer.create\<close> is annotated \<^verbatim>\<open>(str, int, str, Optional[str])\<close>, but Python does
  not enforce annotations: any object can arrive, and rejecting the wrong ones is the work
  of the field validators. The arguments are therefore dynamically typed values. An object
  that is neither \<^verbatim>\<open>None\<close>, a \<^verbatim>\<open>bool\<close>, an \<^verbatim>\<open>int\<close> nor a \<^verbatim>\<open>str\<close> (a float, bytes, a
  list, ...) is seen by this code only through \<^verbatim>\<open>not x\<close> and through \<^verbatim>\<open>f'{x}'\<close>, so
  \<open>PObj\<close> carries exactly its truth value and its \<^verbatim>\<open>str()\<close> text. Strings are byte lists
  here; every character the code inspects is ASCII.
\<close>

datatype pyval =
    PNone
  | PBool bool
  | PInt int
  | PStr string
  | PObj bool string

text \<open>Truth value testing, as \<^verbatim>\<open>not idempotency_key\<close> on line 56 does it.\<close>

fun truthy :: "pyval \<Rightarrow> bool" where
  "truthy PNone = False"
| "truthy (PBool b) = b"
| "truthy (PInt i) = (i \<noteq> 0)"
| "truthy (PStr s) = (s \<noteq> [])"
| "truthy (PObj t r) = t"

text \<open>Decimal text of an integer, as \<^verbatim>\<open>str(int)\<close> and the f-string on line 73 produce it.\<close>

definition digit_char :: "nat \<Rightarrow> char" where
  "digit_char d = ''0123456789'' ! d"

fun str_nat :: "nat \<Rightarrow> string" where
  "str_nat n = (if n < 10 then [digit_char n] else str_nat (n div 10) @ [digit_char (n mod 10)])"

declare str_nat.simps [simp del]

definition str_int :: "int \<Rightarrow> string" where
  "str_int i = (if i < 0 then CHR ''-'' # str_nat (nat (- i)) else str_nat (nat i))"

fun py_str :: "pyval \<Rightarrow> string" where
  "py_str PNone = ''None''"
| "py_str (PBool b) = (if b then ''True'' else ''False'')"
| "py_str (PInt i) = str_int i"
| "py_str (PStr s) = s"
| "py_str (PObj t r) = r"

section \<open>Dates\<close>

text \<open>
  \<^verbatim>\<open>dt.datetime\<close> is a subclass of \<^verbatim>\<open>dt.date\<close>; \<^verbatim>\<open>.date()\<close> keeps year, month and day.
  \<^verbatim>\<open>str(date)\<close> is the ISO form \<^verbatim>\<open>%04d-%02d-%02d\<close>.
\<close>

record date =
  year :: nat
  month :: nat
  day :: nat

record datetime = date +
  hour :: nat
  minute :: nat
  second :: nat
  microsecond :: nat

definition date_of :: "datetime \<Rightarrow> date" where
  "date_of t = \<lparr>year = year t, month = month t, day = day t\<rparr>"

definition zero_pad :: "nat \<Rightarrow> string \<Rightarrow> string" where
  "zero_pad w s = replicate (w - length s) CHR ''0'' @ s"

definition str_date :: "date \<Rightarrow> string" where
  "str_date d =
     zero_pad 4 (str_nat (year d)) @ ''-'' @ zero_pad 2 (str_nat (month d)) @ ''-'' @
     zero_pad 2 (str_nat (day d))"

section \<open>Errors\<close>

text \<open>The error kinds of section 7 of the specification; every raise is a value \<open>Inl e\<close>.\<close>

datatype error =
    ValidationError
  | ConfigurationError
  | AuthenticationError
  | NotFoundError
  | ConflictError
  | TransportError

section \<open>Field validators\<close>

text \<open>Modelled from the spec: \<^verbatim>\<open>Clabe\<close> is imported from the package \<^verbatim>\<open>clabe\<close>, which is not
  among the sources. Section 4.1: it accepts only strings matching the 18-digit format:
  fixed length, numeric, valid checksum per the CLABE standard. The standard's control
  digit weighs the first 17 digits by 3, 7, 1 repeating, reduces each product modulo 10,
  sums them modulo 10 and takes the complement to 10, modulo 10.
\<close>

definition CLABE_LENGTH :: nat where
  "CLABE_LENGTH = 18"

definition CLABE_WEIGHTS :: "nat list" where
  "CLABE_WEIGHTS = [3, 7, 1, 3, 7, 1, 3, 7, 1, 3, 7, 1, 3, 7, 1, 3, 7]"

definition is_digit :: "char \<Rightarrow> bool" where
  "is_digit c = (c \<in> set ''0123456789'')"

definition digit_val :: "char \<Rightarrow> nat" where
  "digit_val c = of_char c - 48"

definition compute_control_digit :: "string \<Rightarrow> nat" where
  "compute_control_digit s =
     (10 - sum_list (map2 (\<lambda>c w. digit_val c * w mod 10) (take 17 s) CLABE_WEIGHTS) mod 10) mod 10"

fun Clabe :: "pyval \<Rightarrow> error + string" where
  "Clabe (PStr s) =
     (if length s \<noteq> CLABE_LENGTH then Inl ValidationError
      else if \<not> list_all is_digit s then Inl ValidationError
      else if digit_val (s ! 17) \<noteq> compute_control_digit s then Inl ValidationError
      else Inr s)"
| "Clabe v = Inl ValidationError"

text \<open>Modelled from the spec: the three constraints that section 8 names for the
  \<^verbatim>\<open>Clabe\<close> type of the absent package, as one predicate on strings: 18 long, digits
  only, correct checksum.
\<close>

definition is_clabe :: "string \<Rightarrow> bool" where
  "is_clabe s =
     (length s = 18 \<and> list_all is_digit s \<and> digit_val (last s) = compute_control_digit s)"

text \<open>Modelled from the spec: \<^verbatim>\<open>StrictPositiveInt\<close> is declared in \<^verbatim>\<open>cuenca/types.py\<close>, which
  is not among the sources. Section 4.1: it accepts only integers greater than 0 and
  rejects floats, strings, zero and negatives; section 8: every non-integer value is
  rejected.
\<close>

fun StrictPositiveInt :: "pyval \<Rightarrow> error + int" where
  "StrictPositiveInt (PInt i) = (if 0 < i then Inr i else Inl ValidationError)"
| "StrictPositiveInt v = Inl ValidationError"

text \<open>Modelled from the spec: \<^verbatim>\<open>StrictStr\<close> is pydantic's and not among the sources.
  Section 4.1: it accepts only string-typed values, with no coercion from numbers or
  booleans.
\<close>

fun StrictStr :: "pyval \<Rightarrow> error + string" where
  "StrictStr (PStr s) = Inr s"
| "StrictStr v = Inl ValidationError"

text \<open>
  The field \<^verbatim>\<open>idempotency_key: str\<close> is not strict. A string is taken as it is; what
  pydantic makes of any other object is not in the sources and is the parameter
  \<open>coerce\<close> (\<open>None\<close> when it refuses the object).
\<close>

fun str_field :: "(pyval \<Rightarrow> string option) \<Rightarrow> pyval \<Rightarrow> error + string" where
  "str_field coerce (PStr s) = Inr s"
| "str_field coerce v = (case coerce v of None \<Rightarrow> Inl ValidationError | Some s \<Rightarrow> Inr s)"

section \<open>The Transfer resource\<close>

text \<open>Modelled from the spec: \<^verbatim>\<open>Status\<close> is declared in \<^verbatim>\<open>cuenca/types.py\<close>, which is not
  among the sources. Section 3 enumerates created, pending, submitted, succeeded, failed.
  \<^verbatim>\<open>Network\<close>, declared in the same file, is described only as the enumerated transfer
  rail; its members are kept as their wire names.
\<close>

datatype Status = created | pending | submitted | succeeded | failed

type_synonym Network = string

text \<open>
  Lines 24 to 33, the fields of the \<^verbatim>\<open>Transfer\<close> dataclass; \<open>id'\<close> is the field \<^verbatim>\<open>id\<close>.
\<close>

record Transfer =
  id' :: string
  created_at :: datetime
  updated_at :: datetime
  account_number :: string
  amount :: int
  descriptor :: string
  idempotency_key :: string
  status :: Status
  network :: Network
  tracking_key :: "string option"

text \<open>Lines 12 to 16, the request model, holding the fields after validation.\<close>

record TransferRequest =
  account_number :: string
  amount :: int
  descriptor :: string
  idempotency_key :: string

text \<open>
  Constructing a \<^verbatim>\<open>TransferRequest\<close> (line 58) runs the validator of each field, by
  the types of lines 13 to 16; any failure raises the one validation error of the model.
\<close>

definition TransferRequest_init ::
    "(pyval \<Rightarrow> string option) \<Rightarrow> pyval \<Rightarrow> pyval \<Rightarrow> pyval \<Rightarrow> pyval \<Rightarrow> error + TransferRequest" where
  "TransferRequest_init coerce a m d k =
     (case Clabe a of Inl e \<Rightarrow> Inl ValidationError | Inr a' \<Rightarrow>
      case StrictPositiveInt m of Inl e \<Rightarrow> Inl ValidationError | Inr m' \<Rightarrow>
      case StrictStr d of Inl e \<Rightarrow> Inl ValidationError | Inr d' \<Rightarrow>
      case str_field coerce k of Inl e \<Rightarrow> Inl ValidationError | Inr k' \<Rightarrow>
        Inr \<lparr>account_number = a', amount = m', descriptor = d', idempotency_key = k'\<rparr>)"

subsection \<open>The HTTP session and the instances\<close>

text \<open>Modelled from the spec: the session of \<^verbatim>\<open>cuenca/http\<close> is not among the sources.
  Section 6: \<^verbatim>\<open>post(path, json_body)\<close> and \<^verbatim>\<open>get(path, params)\<close> return a parsed JSON
  structure or signal the server's error. The server is a function from the request to
  its answer; an answer is the JSON of one resource or one page of a listing together
  with the request for the next page, if the server signals one. The world records every
  request sent, in order, and every \<^verbatim>\<open>Transfer\<close> instance constructed; an instance is known
  by its position.
\<close>

datatype http_request =
    POST string TransferRequest
  | GET string "(string \<times> pyval) list"

datatype http_response =
    Item Transfer
  | Page "Transfer list" "http_request option"

type_synonym server = "http_request \<Rightarrow> error + http_response"

record world =
  requests :: "http_request list"
  instances :: "Transfer list"

definition session_request :: "server \<Rightarrow> world \<Rightarrow> http_request \<Rightarrow> (error + http_response) \<times> world" where
  "session_request srv w rq = (srv rq, w\<lparr>requests := requests w @ [rq]\<rparr>)"

definition construct :: "world \<Rightarrow> Transfer \<Rightarrow> nat \<times> world" where
  "construct w t = (length (instances w), w\<lparr>instances := instances w @ [t]\<rparr>)"

text \<open>Modelled from the spec: \<^verbatim>\<open>Creatable\<close> is declared in \<^verbatim>\<open>cuenca/resources/base.py\<close>, which
  is not among the sources. Section 4.2: create sends a POST of the validated payload to
  the resource's endpoint; on success it deserializes the JSON response into the resource
  type and returns it; on failure it surfaces the server's error. A response of the wrong
  shape is the transport error of section 7.
\<close>

definition Creatable_create ::
    "server \<Rightarrow> string \<Rightarrow> world \<Rightarrow> TransferRequest \<Rightarrow> (error + nat) \<times> world" where
  "Creatable_create srv endpoint w payload =
     (case session_request srv w (POST endpoint payload) of
        (Inl e, w1) \<Rightarrow> (Inl e, w1)
      | (Inr (Item t), w1) \<Rightarrow> (case construct w1 t of (r, w2) \<Rightarrow> (Inr r, w2))
      | (Inr (Page ts nxt), w1) \<Rightarrow> (Inl TransportError, w1))"

subsection \<open>Transfer.create\<close>

text \<open>Lines 21 and 22, the class attributes.\<close>

definition Transfer_endpoint :: string where
  "Transfer_endpoint = ''/transfers''"

definition Transfer_query_params :: "string set" where
  "Transfer_query_params = {''account_number'', ''idempotency_key'', ''status''}"

text \<open>
  Line 73. The clock reading \<^verbatim>\<open>dt.datetime.utcnow()\<close> is the argument \<open>now\<close>; \<open>a\<close> and
  \<open>m\<close> are \<^verbatim>\<open>account_number\<close> and \<^verbatim>\<open>amount\<close>.
\<close>

definition gen_idempotency_key :: "datetime \<Rightarrow> pyval \<Rightarrow> pyval \<Rightarrow> string" where
  "gen_idempotency_key now a m =
     str_date (date_of now) @ '':'' @ py_str a @ '':'' @ py_str m"

text \<open>
  Lines 56 to 64, with \<open>a\<close>, \<open>m\<close>, \<open>d\<close>, \<open>k\<close> for \<^verbatim>\<open>account_number\<close>, \<^verbatim>\<open>amount\<close>,
  \<^verbatim>\<open>descriptor\<close>, \<^verbatim>\<open>idempotency_key\<close> and \<open>k'\<close> for the key after line 57.
\<close>

definition Transfer_create ::
    "datetime \<Rightarrow> (pyval \<Rightarrow> string option) \<Rightarrow> server \<Rightarrow> world \<Rightarrow>
     pyval \<Rightarrow> pyval \<Rightarrow> pyval \<Rightarrow> pyval \<Rightarrow> (error + nat) \<times> world" where
  "Transfer_create now coerce srv w a m d k =
     (let k' = (if \<not> truthy k then PStr (gen_idempotency_key now a m) else k)
      in case TransferRequest_init coerce a m d k' of
           Inl e \<Rightarrow> (Inl e, w)
         | Inr req \<Rightarrow> Creatable_create srv Transfer_endpoint w req)"

subsection \<open>Retrieving and listing\<close>

text \<open>Modelled from the spec: \<^verbatim>\<open>Retrievable\<close> is declared in \<^verbatim>\<open>cuenca/resources/base.py\<close>,
  which is not among the sources. Section 4.2: retrieve sends a GET to
  \<^verbatim>\<open>{endpoint}/{id}\<close> and returns one resource instance, or fails with the not-found error
  of the server.
\<close>

definition Retrievable_retrieve ::
    "server \<Rightarrow> string \<Rightarrow> world \<Rightarrow> string \<Rightarrow> (error + nat) \<times> world" where
  "Retrievable_retrieve srv endpoint w i =
     (case session_request srv w (GET (endpoint @ ''/'' @ i) []) of
        (Inl e, w1) \<Rightarrow> (Inl e, w1)
      | (Inr (Item t), w1) \<Rightarrow> (case construct w1 t of (r, w2) \<Rightarrow> (Inr r, w2))
      | (Inr (Page ts nxt), w1) \<Rightarrow> (Inl TransportError, w1))"

text \<open>Modelled from the spec: \<^verbatim>\<open>Listable\<close> is declared in \<^verbatim>\<open>cuenca/resources/base.py\<close>, which
  is not among the sources. Section 4.2: list validates that every filter key is in the
  resource's allowed query-parameter set and fails with a configuration error otherwise;
  it sends a GET with the filters as query parameters and produces the instances page by
  page, each page fetched only when the caller consumes past the previous one, until the
  server signals no further results. The sequence is lazy: \<open>n\<close> is the number of pages
  the caller consumes.
\<close>

definition construct_all :: "world \<Rightarrow> Transfer list \<Rightarrow> nat list \<times> world" where
  "construct_all w ts =
     ([length (instances w) ..< length (instances w) + length ts],
      w\<lparr>instances := instances w @ ts\<rparr>)"

fun fetch_pages :: "server \<Rightarrow> nat \<Rightarrow> http_request \<Rightarrow> world \<Rightarrow> (error + nat list) \<times> world" where
  "fetch_pages srv 0 rq w = (Inr [], w)"
| "fetch_pages srv (Suc n) rq w =
     (case session_request srv w rq of
        (Inl e, w1) \<Rightarrow> (Inl e, w1)
      | (Inr (Item t), w1) \<Rightarrow> (Inl TransportError, w1)
      | (Inr (Page ts nxt), w1) \<Rightarrow>
          (case construct_all w1 ts of (refs, w2) \<Rightarrow>
            (case nxt of
               None \<Rightarrow> (Inr refs, w2)
             | Some rq' \<Rightarrow>
                 (case fetch_pages srv n rq' w2 of
                    (Inl e, w3) \<Rightarrow> (Inl e, w3)
                  | (Inr rs, w3) \<Rightarrow> (Inr (refs @ rs), w3)))))"

definition check_query_params :: "string set \<Rightarrow> (string \<times> pyval) list \<Rightarrow> bool" where
  "check_query_params allowed filters = list_all (\<lambda>(key, v). key \<in> allowed) filters"

definition Listable_list ::
    "server \<Rightarrow> string \<Rightarrow> string set \<Rightarrow> world \<Rightarrow> (string \<times> pyval) list \<Rightarrow> nat \<Rightarrow>
     (error + nat list) \<times> world" where
  "Listable_list srv endpoint allowed w filters n =
     (if \<not> check_query_params allowed filters then (Inl ConfigurationError, w)
      else fetch_pages srv n (GET endpoint filters) w)"

text \<open>
  Line 20: \<^verbatim>\<open>class Transfer(Creatable, Listable, Retrievable)\<close>. The inherited class
  methods run with the class attributes of lines 21 and 22.
\<close>

datatype capability = Creatable | Listable | Retrievable

datatype operation = op_create | op_list | op_retrieve

fun operation_of :: "capability \<Rightarrow> operation" where
  "operation_of Creatable = op_create"
| "operation_of Listable = op_list"
| "operation_of Retrievable = op_retrieve"

definition Transfer_bases :: "capability list" where
  "Transfer_bases = [Creatable, Listable, Retrievable]"

definition Transfer_operations :: "operation set" where
  "Transfer_operations = set (map operation_of Transfer_bases)"

definition Transfer_retrieve :: "server \<Rightarrow> world \<Rightarrow> string \<Rightarrow> (error + nat) \<times> world" where
  "Transfer_retrieve srv w i = Retrievable_retrieve srv Transfer_endpoint w i"

definition Transfer_list ::
    "server \<Rightarrow> world \<Rightarrow> (string \<times> pyval) list \<Rightarrow> nat \<Rightarrow> (error + nat list) \<times> world" where
  "Transfer_list srv w filters n =
     Listable_list srv Transfer_endpoint Transfer_query_params w filters n"

section \<open>Example values\<close>

text \<open>
  Concrete inputs on which the theorems below are evaluated: two clock readings on the same
  UTC day, a server that answers every POST with a succeeded transfer, and worlds with no
  and with one instance.
\<close>

definition example_now :: datetime where
  "example_now =
     \<lparr>year = 2020, month = 5, day = 17, hour = 23, minute = 4, second = 9, microsecond = 120\<rparr>"

definition example_morning :: datetime where
  "example_morning =
     \<lparr>year = 2020, month = 5, day = 17, hour = 0, minute = 0, second = 1, microsecond = 0\<rparr>"

definition no_coerce :: "pyval \<Rightarrow> string option" where
  "no_coerce v = None"

definition mock_transfer :: Transfer where
  "mock_transfer =
     \<lparr>id' = ''TR01'', created_at = example_now, updated_at = example_now,
      account_number = ''646180157000000004'', amount = 10000, descriptor = ''payment'',
      idempotency_key = ''order-123'', status = succeeded, network = ''spei'',
      tracking_key = None\<rparr>"

definition submitted_transfer :: Transfer where
  "submitted_transfer = mock_transfer\<lparr>status := submitted\<rparr>"

definition mock_server :: server where
  "mock_server rq =
     (case rq of
        POST p body \<Rightarrow> Inr (Item mock_transfer)
      | GET p q \<Rightarrow>
          (if p = ''/transfers'' then Inr (Page [mock_transfer] None)
           else if p = ''/transfers/TR01'' then Inr (Item mock_transfer)
           else Inl NotFoundError))"

definition empty_world :: world where
  "empty_world = \<lparr>requests = [], instances = []\<rparr>"

definition one_instance_world :: world where
  "one_instance_world = \<lparr>requests = [], instances = [submitted_transfer]\<rparr>"

section \<open>Facts about the validators\<close>

lemma last_of_18: "length s = 18 \<Longrightarrow> last s = s ! 17"
  by (cases s rule: rev_cases) (simp_all add: nth_append)

lemma Clabe_Inr_iff: "(Clabe v = Inr s) = (v = PStr s \<and> is_clabe s)"
  by (cases v) (auto simp: is_clabe_def CLABE_LENGTH_def last_of_18)

lemma StrictPositiveInt_Inr_iff: "(StrictPositiveInt v = Inr n) = (v = PInt n \<and> 0 < n)"
  by (cases v) auto

lemma StrictStr_Inr_iff: "(StrictStr v = Inr s) = (v = PStr s)"
  by (cases v) auto

lemma is_clabe_sample: "is_clabe ''646180157000000004''"
  by (simp add: is_clabe_def is_digit_def digit_val_def compute_control_digit_def CLABE_WEIGHTS_def)

lemma not_is_clabe_bad: "\<not> is_clabe ''bad-clabe''"
  by (simp add: is_clabe_def)

text \<open>
  The checksum constraint is not empty: a prefix of 17 digits is completed to a CLABE by
  exactly one character, the digit that \<open>compute_control_digit\<close> gives.
\<close>

lemma digit_char_digit_val: "is_digit c \<Longrightarrow> digit_char (digit_val c) = c"
  by (auto simp: is_digit_def digit_char_def digit_val_def)

lemma digit_val_digit_char: "k < 10 \<Longrightarrow> is_digit (digit_char k) \<and> digit_val (digit_char k) = k"
proof -
  assume "k < 10"
  then have "k \<in> set [0..<10]" by simp
  then have "k \<in> {0, 1, 2, 3, 4, 5, 6, 7, 8, 9}"
    by (simp add: upt_rec numeral_eq_Suc)
  then show ?thesis
    by (auto simp: is_digit_def digit_char_def digit_val_def)
qed

lemma compute_control_digit_less: "compute_control_digit s < 10"
  by (simp add: compute_control_digit_def)

lemma compute_control_digit_prefix:
  "length p = 17 \<Longrightarrow> compute_control_digit (p @ [c]) = compute_control_digit p"
  by (simp add: compute_control_digit_def)

lemma control_digit_unique:
  assumes "length p = 17" and "list_all is_digit p"
  shows "is_clabe (p @ [c]) = (c = digit_char (compute_control_digit p))"
proof
  assume "is_clabe (p @ [c])"
  with assms have "is_digit c" "digit_val c = compute_control_digit p"
    by (simp_all add: is_clabe_def compute_control_digit_prefix)
  then show "c = digit_char (compute_control_digit p)"
    using digit_char_digit_val by metis
next
  assume "c = digit_char (compute_control_digit p)"
  with digit_val_digit_char [OF compute_control_digit_less, of p] assms
  show "is_clabe (p @ [c])"
    by (simp add: is_clabe_def compute_control_digit_prefix)
qed

section \<open>Facts about the request model\<close>

lemma TransferRequest_init_Inl:
  "TransferRequest_init coerce a m d k = Inl e \<Longrightarrow> e = ValidationError"
  by (auto simp: TransferRequest_init_def split: sum.splits)

lemma TransferRequest_init_Inr:
  "TransferRequest_init coerce a m d k = Inr req \<Longrightarrow>
     a = PStr (account_number req) \<and> is_clabe (account_number req) \<and>
     m = PInt (amount req) \<and> 0 < amount req \<and>
     d = PStr (descriptor req) \<and>
     str_field coerce k = Inr (idempotency_key req)"
  by (auto simp: TransferRequest_init_def Clabe_Inr_iff StrictPositiveInt_Inr_iff StrictStr_Inr_iff
      split: sum.splits)

lemma TransferRequest_init_valid:
  "is_clabe acct \<Longrightarrow> 0 < n \<Longrightarrow>
   TransferRequest_init coerce (PStr acct) (PInt n) (PStr desc) (PStr key) =
     Inr \<lparr>account_number = acct, amount = n, descriptor = desc, idempotency_key = key\<rparr>"
  using Clabe_Inr_iff [of "PStr acct" acct]
  by (simp add: TransferRequest_init_def del: Clabe.simps)

lemma TransferRequest_init_invalid:
  assumes "\<not> (\<exists>s. a = PStr s \<and> is_clabe s) \<or> \<not> (\<exists>n. m = PInt n \<and> 0 < n) \<or> \<not> (\<exists>s. d = PStr s)"
  shows "TransferRequest_init coerce a m d k = Inl ValidationError"
proof (cases "TransferRequest_init coerce a m d k")
  case (Inl e)
  then show ?thesis using TransferRequest_init_Inl by blast
next
  case (Inr req)
  from TransferRequest_init_Inr [OF this] assms show ?thesis by blast
qed

section \<open>Facts about the requests sent\<close>

lemma Creatable_create_requests:
  "requests (snd (Creatable_create srv ep w payload)) = requests w @ [POST ep payload]"
  by (simp add: Creatable_create_def session_request_def construct_def
      split: sum.splits http_response.splits)

lemma gen_idempotency_key_nonempty: "gen_idempotency_key now a m \<noteq> []"
  by (simp add: gen_idempotency_key_def)

lemma example_key:
  "gen_idempotency_key example_now (PStr ''646180157000000004'') (PInt 10000) =
     ''2020-05-17:646180157000000004:10000''"
  by (simp add: gen_idempotency_key_def example_now_def date_of_def str_date_def zero_pad_def
      str_int_def str_nat.simps digit_char_def)

lemma Transfer_create_falsy:
  "\<not> truthy k \<Longrightarrow>
     Transfer_create now coerce srv w a m d k = Transfer_create now coerce srv w a m d PNone"
  by (simp add: Transfer_create_def)

text \<open>With valid fields and no key, the request is sent, and it carries the generated key.\<close>

lemma omitted_key_request_sent:
  assumes "is_clabe acct" and "0 < n"
  shows "requests (snd (Transfer_create now coerce srv w (PStr acct) (PInt n) (PStr desc) PNone)) =
           requests w @ [POST ''/transfers'' \<lparr>account_number = acct, amount = n, descriptor = desc,
             idempotency_key = str_date (date_of now) @ '':'' @ acct @ '':'' @ str_int n\<rparr>]"
  using TransferRequest_init_valid [OF assms, of coerce desc
      "gen_idempotency_key now (PStr acct) (PInt n)"]
  by (simp add: Transfer_create_def Creatable_create_requests Transfer_endpoint_def
      gen_idempotency_key_def)

lemma create_sample_run:
  "\<not> truthy k \<Longrightarrow>
   Transfer_create example_now coerce mock_server empty_world (PStr ''646180157000000004'')
      (PInt 10000) (PStr ''payment'') k =
     (Inr 0, \<lparr>requests = [POST ''/transfers'' \<lparr>account_number = ''646180157000000004'',
                 amount = 10000, descriptor = ''payment'',
                 idempotency_key = ''2020-05-17:646180157000000004:10000''\<rparr>],
              instances = [mock_transfer]\<rparr>)"
  using TransferRequest_init_valid [OF is_clabe_sample, of 10000 coerce "''payment''"
      "''2020-05-17:646180157000000004:10000''"]
  by (simp add: Transfer_create_def Creatable_create_def session_request_def example_key
      Transfer_endpoint_def construct_def mock_server_def empty_world_def)

lemma Transfer_create_key_nonempty:
  assumes "k = PNone \<or> (\<exists>s. k = PStr s)"
  shows "\<exists>new. requests (snd (Transfer_create now coerce srv w a m d k)) = requests w @ new
           \<and> (\<forall>p body. POST p body \<in> set new \<longrightarrow> idempotency_key body \<noteq> [])"
proof -
  define k' where "k' = (if \<not> truthy k then PStr (gen_idempotency_key now a m) else k)"
  have "\<exists>s. k' = PStr s \<and> s \<noteq> []"
  proof (cases "truthy k")
    case True
    with assms show ?thesis by (cases k) (simp_all add: k'_def)
  next
    case False
    then show ?thesis by (simp add: k'_def gen_idempotency_key_nonempty)
  qed
  then obtain s where s: "k' = PStr s" "s \<noteq> []"
    by blast
  show ?thesis
  proof (cases "TransferRequest_init coerce a m d k'")
    case (Inl e)
    then have "requests (snd (Transfer_create now coerce srv w a m d k)) = requests w @ []"
      by (simp add: Transfer_create_def k'_def)
    then show ?thesis by (intro exI [of _ "[]"]) simp
  next
    case (Inr req)
    from TransferRequest_init_Inr [OF Inr] s have "idempotency_key req \<noteq> []" by auto
    moreover from Inr
    have "requests (snd (Transfer_create now coerce srv w a m d k)) =
        requests w @ [POST Transfer_endpoint req]"
      by (simp add: Transfer_create_def k'_def Creatable_create_requests)
    ultimately show ?thesis by (intro exI [of _ "[POST Transfer_endpoint req]"]) simp
  qed
qed

section \<open>Facts about the instances\<close>

lemma take_extended: "\<exists>new. ys = xs @ new \<Longrightarrow> take (length xs) ys = xs"
  by auto

lemma Creatable_create_instances:
  "\<exists>new. instances (snd (Creatable_create srv ep w payload)) = instances w @ new"
  by (simp add: Creatable_create_def session_request_def construct_def
      split: sum.splits http_response.splits)

lemma Creatable_create_fresh:
  "Creatable_create srv ep w payload = (Inr r, w') \<Longrightarrow>
     length (instances w) \<le> r \<and> r < length (instances w')"
  by (auto simp: Creatable_create_def session_request_def construct_def
      split: sum.splits http_response.splits)

lemma Transfer_create_instances:
  "\<exists>new. instances (snd (Transfer_create now coerce srv w a m d k)) = instances w @ new"
  using Creatable_create_instances
  by (simp add: Transfer_create_def Let_def split: sum.splits)

lemma Transfer_create_fresh:
  "Transfer_create now coerce srv w a m d k = (Inr r, w') \<Longrightarrow>
     length (instances w) \<le> r \<and> r < length (instances w')"
  using Creatable_create_fresh
  by (auto simp: Transfer_create_def Let_def split: sum.splits if_splits)

lemma Transfer_retrieve_instances:
  "\<exists>new. instances (snd (Transfer_retrieve srv w i)) = instances w @ new"
  by (simp add: Transfer_retrieve_def Retrievable_retrieve_def session_request_def construct_def
      split: sum.splits http_response.splits)

lemma Transfer_retrieve_fresh:
  "Transfer_retrieve srv w i = (Inr r, w') \<Longrightarrow>
     length (instances w) \<le> r \<and> r < length (instances w')"
  by (auto simp: Transfer_retrieve_def Retrievable_retrieve_def session_request_def construct_def
      split: sum.splits http_response.splits)

text \<open>
  The pages of a listing: induction on the number of pages consumed, the request and the
  world generalised, since each page changes both.
\<close>

lemma fetch_pages_instances:
  "\<exists>new. instances (snd (fetch_pages srv n rq w)) = instances w @ new"
proof (induction n arbitrary: rq w)
  case 0
  show ?case by simp
next
  case (Suc n)
  show ?case
  proof (cases "srv rq")
    case (Inl e)
    then show ?thesis by (simp add: session_request_def)
  next
    case (Inr resp)
    show ?thesis
    proof (cases resp)
      case (Item t)
      with Inr show ?thesis by (simp add: session_request_def)
    next
      case (Page ts nxt)
      let ?w2 = "w\<lparr>requests := requests w @ [rq], instances := instances w @ ts\<rparr>"
      show ?thesis
      proof (cases nxt)
        case None
        with Inr Page show ?thesis by (simp add: session_request_def construct_all_def)
      next
        case (Some rq')
        from Suc.IH [of rq' ?w2] obtain new
          where "instances (snd (fetch_pages srv n rq' ?w2)) = instances w @ ts @ new"
          by auto
        with Inr Page Some show ?thesis
          by (auto simp: session_request_def construct_all_def split: prod.splits sum.splits)
      qed
    qed
  qed
qed

lemma fetch_pages_fresh:
  "fetch_pages srv n rq w = (Inr rs, w') \<Longrightarrow>
     \<forall>r\<in>set rs. length (instances w) \<le> r \<and> r < length (instances w')"
proof (induction n arbitrary: rq w rs w')
  case 0
  then show ?case by simp
next
  case (Suc n)
  show ?case
  proof (cases "srv rq")
    case (Inl e)
    with Suc.prems show ?thesis by (simp add: session_request_def)
  next
    case (Inr resp)
    show ?thesis
    proof (cases resp)
      case (Item t)
      with Inr Suc.prems show ?thesis by (simp add: session_request_def)
    next
      case (Page ts nxt)
      let ?w2 = "w\<lparr>requests := requests w @ [rq], instances := instances w @ ts\<rparr>"
      show ?thesis
      proof (cases nxt)
        case None
        with Inr Page Suc.prems show ?thesis
          by (auto simp: session_request_def construct_all_def)
      next
        case (Some rq')
        with Inr Page Suc.prems obtain rs' where
          run: "fetch_pages srv n rq' ?w2 = (Inr rs', w')" and
          rs: "rs = [length (instances w) ..< length (instances w) + length ts] @ rs'"
          by (auto simp: session_request_def construct_all_def split: prod.splits sum.splits)
        from fetch_pages_instances [of srv n rq' ?w2] run
        have len: "length (instances w) + length ts \<le> length (instances w')" by auto
        from Suc.IH [OF run]
        have "\<forall>r\<in>set rs'. length (instances w) \<le> r \<and> r < length (instances w')"
          by auto
        with rs len show ?thesis by auto
      qed
    qed
  qed
qed

lemma Transfer_list_instances:
  "\<exists>new. instances (snd (Transfer_list srv w filters n)) = instances w @ new"
  using fetch_pages_instances by (simp add: Transfer_list_def Listable_list_def)

lemma Transfer_list_fresh:
  "Transfer_list srv w filters n = (Inr rs, w') \<Longrightarrow>
     \<forall>r\<in>set rs. length (instances w) \<le> r \<and> r < length (instances w')"
  using fetch_pages_fresh
  by (simp add: Transfer_list_def Listable_list_def split: if_splits)

lemma retrieve_sample_run:
  "Transfer_retrieve mock_server one_instance_world ''TR01'' =
     (Inr 1, \<lparr>requests = [GET ''/transfers/TR01'' []],
               instances = [submitted_transfer, mock_transfer]\<rparr>)"
  by (simp add: Transfer_retrieve_def Retrievable_retrieve_def Transfer_endpoint_def
      session_request_def construct_def mock_server_def one_instance_world_def)

lemma list_sample_run:
  "Transfer_list mock_server empty_world [(''status'', PStr ''succeeded'')] (Suc 0) =
     (Inr [0], \<lparr>requests = [GET ''/transfers'' [(''status'', PStr ''succeeded'')]],
                instances = [mock_transfer]\<rparr>)"
  by (simp add: Transfer_list_def Listable_list_def check_query_params_def Transfer_query_params_def
      Transfer_endpoint_def session_request_def construct_all_def mock_server_def empty_world_def)

section \<open>The claims\<close>

subsection \<open>C1\<close>

text \<open>
  C1. The call \<^verbatim>\<open>Transfer.create('646180157000000004', 10000, 'payment', 'order-123')\<close>
  sends one POST to \<^verbatim>\<open>/transfers\<close> whose body is exactly the four fields account_number
  '646180157000000004', amount 10000, descriptor 'payment', idempotency_key 'order-123',
  whatever the clock, the server and the world are; and when the server answers that
  request with a transfer of status succeeded, the call returns a newly constructed
  Transfer whose status is succeeded.
\<close>

theorem create_scenario:
  "let body = \<lparr>account_number = ''646180157000000004'', amount = 10000,
                descriptor = ''payment'', idempotency_key = ''order-123''\<rparr>;
       (res, w') = Transfer_create now coerce srv w (PStr ''646180157000000004'') (PInt 10000)
                     (PStr ''payment'') (PStr ''order-123'')
   in requests w' = requests w @ [POST ''/transfers'' body]
      \<and> (\<forall>t. srv (POST ''/transfers'' body) = Inr (Item t) \<and> status t = succeeded \<longrightarrow>
             res = Inr (length (instances w)) \<and> instances w' = instances w @ [t]
             \<and> status (instances w' ! length (instances w)) = succeeded)"
  using TransferRequest_init_valid [OF is_clabe_sample, of 10000 coerce "''payment''" "''order-123''"]
  by (simp add: Transfer_create_def Creatable_create_def session_request_def
      Transfer_endpoint_def construct_def split: sum.splits http_response.splits)

theorem create_scenario_witness:
  "Transfer_create example_now no_coerce mock_server empty_world (PStr ''646180157000000004'')
      (PInt 10000) (PStr ''payment'') (PStr ''order-123'') =
     (Inr 0, \<lparr>requests = [POST ''/transfers'' \<lparr>account_number = ''646180157000000004'',
                 amount = 10000, descriptor = ''payment'', idempotency_key = ''order-123''\<rparr>],
              instances = [mock_transfer]\<rparr>)
   \<and> status mock_transfer = succeeded"
  using create_scenario [of example_now no_coerce mock_server empty_world]
  by (auto simp: Let_def mock_server_def empty_world_def mock_transfer_def split: prod.splits)

subsection \<open>C2\<close>

text \<open>
  C2. When \<^verbatim>\<open>Transfer.create(account_number, amount, descriptor)\<close> is called with the
  idempotency key omitted and a request is sent, the request is one POST to \<^verbatim>\<open>/transfers\<close>
  whose body carries the caller's account number, amount and descriptor, and whose
  idempotency key is the UTC date of the clock reading in the form YYYY-MM-DD, the account
  number and the decimal amount, joined by colons.
\<close>

theorem omitted_key_generated:
  assumes "Transfer_create now coerce srv w a m d PNone = (res, w')"
      and "requests w' \<noteq> requests w"
  shows "\<exists>body. requests w' = requests w @ [POST ''/transfers'' body]
           \<and> a = PStr (account_number body) \<and> m = PInt (amount body) \<and> d = PStr (descriptor body)
           \<and> idempotency_key body =
               str_date (date_of now) @ '':'' @ account_number body @ '':'' @ str_int (amount body)"
proof (cases "TransferRequest_init coerce a m d (PStr (gen_idempotency_key now a m))")
  case (Inl e)
  with assms show ?thesis by (simp add: Transfer_create_def)
next
  case (Inr req)
  note f = TransferRequest_init_Inr [OF Inr]
  from Inr assms(1) have "w' = snd (Creatable_create srv Transfer_endpoint w req)"
    by (simp add: Transfer_create_def)
  then have "requests w' = requests w @ [POST ''/transfers'' req]"
    by (simp add: Creatable_create_requests Transfer_endpoint_def)
  moreover from f have a: "a = PStr (account_number req)" and m: "m = PInt (amount req)"
    and "d = PStr (descriptor req)"
    by simp_all
  moreover from f
  have "str_field coerce (PStr (gen_idempotency_key now a m)) = Inr (idempotency_key req)"
    by blast
  then have "gen_idempotency_key now a m = idempotency_key req" by simp
  then have "idempotency_key req =
      str_date (date_of now) @ '':'' @ account_number req @ '':'' @ str_int (amount req)"
    by (subst (asm) a, subst (asm) m) (simp add: gen_idempotency_key_def)
  ultimately show ?thesis by blast
qed

theorem omitted_key_generated_witness:
  "\<exists>body. requests (snd (Transfer_create example_now no_coerce mock_server empty_world
        (PStr ''646180157000000004'') (PInt 10000) (PStr ''payment'') PNone)) =
      [POST ''/transfers'' body]
    \<and> idempotency_key body = ''2020-05-17:646180157000000004:10000''"
proof -
  let ?w' = "\<lparr>requests = [POST ''/transfers'' \<lparr>account_number = ''646180157000000004'',
                 amount = 10000, descriptor = ''payment'',
                 idempotency_key = ''2020-05-17:646180157000000004:10000''\<rparr>],
              instances = [mock_transfer]\<rparr>"
  have run: "Transfer_create example_now no_coerce mock_server empty_world
      (PStr ''646180157000000004'') (PInt 10000) (PStr ''payment'') PNone = (Inr 0, ?w')"
    by (rule create_sample_run) simp
  have sent: "requests ?w' \<noteq> requests empty_world" by (simp add: empty_world_def)
  from omitted_key_generated [OF run sent] obtain body where
    "requests ?w' = requests empty_world @ [POST ''/transfers'' body]"
    "idempotency_key body =
       str_date (date_of example_now) @ '':'' @ account_number body @ '':'' @ str_int (amount body)"
    by blast
  with run show ?thesis by (auto simp: empty_world_def)
qed

subsection \<open>C3\<close>

text \<open>
  C3. When the account number is not a string that is a valid CLABE, or the amount is not
  an integer greater than 0, or the descriptor is not a string, \<^verbatim>\<open>Transfer.create\<close> raises
  the validation error and leaves the world as it was: no request is sent and no instance
  is constructed, whatever the key, the clock and the server are. In particular
  \<^verbatim>\<open>Transfer.create('bad-clabe', 10000, 'x')\<close> does so.
\<close>

theorem create_invalid_no_request:
  assumes "\<not> (\<exists>s. a = PStr s \<and> is_clabe s) \<or> \<not> (\<exists>n. m = PInt n \<and> 0 < n) \<or> \<not> (\<exists>s. d = PStr s)"
  shows "Transfer_create now coerce srv w a m d k = (Inl ValidationError, w)"
  using TransferRequest_init_invalid [OF assms]
  by (simp add: Transfer_create_def Let_def)

theorem create_invalid_no_request_witness:
  "\<not> is_clabe ''bad-clabe''
   \<and> Transfer_create example_now no_coerce mock_server empty_world (PStr ''bad-clabe'') (PInt 10000)
       (PStr ''x'') PNone = (Inl ValidationError, empty_world)
   \<and> requests empty_world = []"
  using create_invalid_no_request [of "PStr ''bad-clabe''" "PInt 10000" "PStr ''x''" example_now
      no_coerce mock_server empty_world PNone] not_is_clabe_bad
  by (simp add: empty_world_def)

subsection \<open>C4\<close>

text \<open>
  C4. Two runs of the key generation with the same account number and the same amount,
  at clock readings that fall on the same UTC calendar date, give the same key.
\<close>

theorem gen_key_deterministic:
  "date_of now1 = date_of now2 \<Longrightarrow> gen_idempotency_key now1 a m = gen_idempotency_key now2 a m"
  by (simp add: gen_idempotency_key_def)

theorem gen_key_deterministic_witness:
  "example_now \<noteq> example_morning
   \<and> gen_idempotency_key example_now (PStr ''646180157000000004'') (PInt 10000) =
     gen_idempotency_key example_morning (PStr ''646180157000000004'') (PInt 10000)"
proof -
  have "date_of example_now = date_of example_morning"
    by (simp add: date_of_def example_now_def example_morning_def)
  from gen_key_deterministic [OF this] show ?thesis
    by (simp add: example_now_def example_morning_def)
qed

subsection \<open>C5\<close>

text \<open>
  C5. The amount validator accepts a value exactly when it is an integer greater than 0,
  and then returns that integer. Every other value is rejected with the validation error:
  an integer that is 0 or negative, a boolean, a string, \<^verbatim>\<open>None\<close> and any other object
  such as a float.
\<close>

theorem StrictPositiveInt_accepts_iff:
  "(StrictPositiveInt v = Inr n) = (v = PInt n \<and> 0 < n)
   \<and> (StrictPositiveInt v = Inl ValidationError) = (\<not> (\<exists>i. v = PInt i \<and> 0 < i))
   \<and> (StrictPositiveInt (PInt i) = Inl ValidationError) = (i \<le> 0)
   \<and> StrictPositiveInt (PBool b) = Inl ValidationError
   \<and> StrictPositiveInt (PStr s) = Inl ValidationError
   \<and> StrictPositiveInt (PObj t r) = Inl ValidationError
   \<and> StrictPositiveInt PNone = Inl ValidationError"
  by (cases v) auto

theorem StrictPositiveInt_accepts_iff_witness:
  "StrictPositiveInt (PInt 10000) = Inr 10000
   \<and> StrictPositiveInt (PInt 0) = Inl ValidationError
   \<and> StrictPositiveInt (PInt (- 5)) = Inl ValidationError
   \<and> StrictPositiveInt (PBool True) = Inl ValidationError
   \<and> StrictPositiveInt (PStr ''10000'') = Inl ValidationError
   \<and> StrictPositiveInt (PObj True ''100.5'') = Inl ValidationError"
  using StrictPositiveInt_accepts_iff [of "PInt 10000" 10000 0 True "''10000''" True "''100.5''"]
    StrictPositiveInt_accepts_iff [of "PInt (- 5)" 0 "- 5"]
  by simp

subsection \<open>C6\<close>

text \<open>
  C6. The CLABE validator accepts exactly the strings that are 18 characters long, consist
  of digits only and end in the control digit computed from the first 17, and returns the
  string as it is. Every other value, a string that breaks one of the three constraints
  or a value that is not a string, is rejected with the validation error.
\<close>

theorem Clabe_accepts_iff:
  "(Clabe v = Inr s) = (v = PStr s \<and> length s = 18 \<and> list_all is_digit s
                          \<and> digit_val (last s) = compute_control_digit s)
   \<and> (Clabe v = Inl ValidationError) =
       (\<not> (\<exists>s. v = PStr s \<and> length s = 18 \<and> list_all is_digit s
                  \<and> digit_val (last s) = compute_control_digit s))"
  by (cases v) (auto simp: CLABE_LENGTH_def last_of_18)

theorem Clabe_accepts_iff_witness:
  "Clabe (PStr ''646180157000000004'') = Inr ''646180157000000004''
   \<and> Clabe (PStr ''646180157000000005'') = Inl ValidationError
   \<and> Clabe (PStr ''64618015700000000'') = Inl ValidationError
   \<and> Clabe (PStr ''64618015700000000x'') = Inl ValidationError
   \<and> Clabe (PStr ''bad-clabe'') = Inl ValidationError
   \<and> Clabe (PInt 646180157000000004) = Inl ValidationError"
  using Clabe_accepts_iff [of "PStr ''646180157000000004''" "''646180157000000004''"]
  by (simp add: CLABE_LENGTH_def is_digit_def digit_val_def compute_control_digit_def
      CLABE_WEIGHTS_def)

subsection \<open>C7\<close>

text \<open>
  C7. When at least one filter key of a call to \<^verbatim>\<open>Transfer.list\<close> is outside
  account_number, idempotency_key, status, the call fails with the configuration error
  and leaves the world as it was: no request is sent, however many pages the caller asks
  for.
\<close>

theorem list_rejects_unknown_filter:
  assumes "\<exists>key \<in> fst ` set filters. key \<notin> {''account_number'', ''idempotency_key'', ''status''}"
  shows "Transfer_list srv w filters n = (Inl ConfigurationError, w)"
proof -
  from assms have "\<not> check_query_params Transfer_query_params filters"
    by (auto simp: check_query_params_def Transfer_query_params_def list_all_iff)
  then show ?thesis by (simp add: Transfer_list_def Listable_list_def)
qed

theorem list_rejects_unknown_filter_witness:
  "Transfer_list mock_server empty_world [(''status'', PStr ''succeeded''), (''amount'', PInt 10000)] 1 =
     (Inl ConfigurationError, empty_world)"
  using list_rejects_unknown_filter [of "[(''status'', PStr ''succeeded''), (''amount'', PInt 10000)]"
      mock_server empty_world 1]
  by simp

subsection \<open>C8\<close>

text \<open>
  C8. The Transfer resource has the endpoint \<^verbatim>\<open>/transfers\<close>, supports exactly the
  operations create, list and retrieve, and allows exactly the query parameters
  account_number, idempotency_key and status when listing.
\<close>

theorem Transfer_configuration:
  "Transfer_endpoint = ''/transfers''
   \<and> Transfer_operations = {op_create, op_list, op_retrieve}
   \<and> Transfer_query_params = {''account_number'', ''idempotency_key'', ''status''}"
  by (auto simp: Transfer_endpoint_def Transfer_operations_def Transfer_bases_def
      Transfer_query_params_def)

subsection \<open>C9\<close>

text \<open>
  C9. No operation of the library changes a Transfer instance that exists: after create,
  retrieve and list, every instance of the world before is still there, at its place,
  with every field as it was; and what an operation returns is a fresh instance, one
  that was not in the world before.
\<close>

theorem instances_never_mutated:
  "take (length (instances w)) (instances (snd (Transfer_create now coerce srv w a m d k))) = instances w
   \<and> take (length (instances w)) (instances (snd (Transfer_retrieve srv w i))) = instances w
   \<and> take (length (instances w)) (instances (snd (Transfer_list srv w filters n))) = instances w
   \<and> (\<forall>r w'. Transfer_create now coerce srv w a m d k = (Inr r, w') \<longrightarrow>
         length (instances w) \<le> r \<and> r < length (instances w'))
   \<and> (\<forall>r w'. Transfer_retrieve srv w i = (Inr r, w') \<longrightarrow>
         length (instances w) \<le> r \<and> r < length (instances w'))
   \<and> (\<forall>rs w'. Transfer_list srv w filters n = (Inr rs, w') \<longrightarrow>
         (\<forall>r\<in>set rs. length (instances w) \<le> r \<and> r < length (instances w')))"
proof (intro conjI allI impI)
  show "take (length (instances w)) (instances (snd (Transfer_create now coerce srv w a m d k))) =
      instances w"
    by (rule take_extended [OF Transfer_create_instances])
  show "take (length (instances w)) (instances (snd (Transfer_retrieve srv w i))) = instances w"
    by (rule take_extended [OF Transfer_retrieve_instances])
  show "take (length (instances w)) (instances (snd (Transfer_list srv w filters n))) = instances w"
    by (rule take_extended [OF Transfer_list_instances])
next
  fix r w' assume "Transfer_create now coerce srv w a m d k = (Inr r, w')"
  then show "length (instances w) \<le> r" and "r < length (instances w')"
    using Transfer_create_fresh by blast+
next
  fix r w' assume "Transfer_retrieve srv w i = (Inr r, w')"
  then show "length (instances w) \<le> r" and "r < length (instances w')"
    using Transfer_retrieve_fresh by blast+
next
  fix rs w' assume "Transfer_list srv w filters n = (Inr rs, w')"
  then show "\<forall>r\<in>set rs. length (instances w) \<le> r \<and> r < length (instances w')"
    by (rule Transfer_list_fresh)
qed

theorem instances_never_mutated_witness:
  "Transfer_retrieve mock_server one_instance_world ''TR01'' =
     (Inr 1, \<lparr>requests = [GET ''/transfers/TR01'' []],
               instances = [submitted_transfer, mock_transfer]\<rparr>)
   \<and> instances one_instance_world = [submitted_transfer]
   \<and> status submitted_transfer = submitted \<and> status mock_transfer = succeeded
   \<and> take 1 (instances (snd (Transfer_retrieve mock_server one_instance_world ''TR01''))) =
       [submitted_transfer]"
  using instances_never_mutated [of one_instance_world example_now no_coerce mock_server
      "PStr ''646180157000000004''" "PInt 10000" "PStr ''payment''" PNone "''TR01''"
      "[(''status'', PStr ''succeeded'')]" "Suc 0"]
    retrieve_sample_run
  by (simp add: one_instance_world_def submitted_transfer_def mock_transfer_def)

subsection \<open>C10\<close>

text \<open>
  C10. \<^verbatim>\<open>Transfer.create\<close> treats every falsy idempotency key, the empty string among
  them, as it treats an omitted one: the call does what the call without a key does, so
  the generated key is the one submitted. For a key that is \<^verbatim>\<open>None\<close> or a string, as the
  signature declares it, no request that the call sends carries an empty idempotency
  key.
\<close>

theorem falsy_key_replaced:
  "(\<not> truthy k \<longrightarrow>
      Transfer_create now coerce srv w a m d k = Transfer_create now coerce srv w a m d PNone)
   \<and> Transfer_create now coerce srv w a m d (PStr []) = Transfer_create now coerce srv w a m d PNone
   \<and> (k = PNone \<or> (\<exists>s. k = PStr s) \<longrightarrow>
        (\<exists>new. requests (snd (Transfer_create now coerce srv w a m d k)) = requests w @ new
           \<and> (\<forall>p body. POST p body \<in> set new \<longrightarrow> idempotency_key body \<noteq> [])))"
  using Transfer_create_falsy [of k now coerce srv w a m d]
    Transfer_create_falsy [of "PStr []" now coerce srv w a m d]
    Transfer_create_key_nonempty [of k now coerce srv w a m d]
  by simp

theorem falsy_key_replaced_witness:
  "Transfer_create example_now no_coerce mock_server empty_world (PStr ''646180157000000004'')
      (PInt 10000) (PStr ''payment'') (PStr []) =
     (Inr 0, \<lparr>requests = [POST ''/transfers'' \<lparr>account_number = ''646180157000000004'',
                 amount = 10000, descriptor = ''payment'',
                 idempotency_key = ''2020-05-17:646180157000000004:10000''\<rparr>],
              instances = [mock_transfer]\<rparr>)
   \<and> Transfer_create example_now no_coerce mock_server empty_world (PStr ''646180157000000004'')
      (PInt 10000) (PStr ''payment'') (PInt 0) =
     Transfer_create example_now no_coerce mock_server empty_world (PStr ''646180157000000004'')
      (PInt 10000) (PStr ''payment'') PNone"
proof -
  have none: "Transfer_create example_now no_coerce mock_server empty_world
      (PStr ''646180157000000004'') (PInt 10000) (PStr ''payment'') PNone =
     (Inr 0, \<lparr>requests = [POST ''/transfers'' \<lparr>account_number = ''646180157000000004'',
                 amount = 10000, descriptor = ''payment'',
                 idempotency_key = ''2020-05-17:646180157000000004:10000''\<rparr>],
              instances = [mock_transfer]\<rparr>)"
    by (rule create_sample_run) simp
  from falsy_key_replaced [of "PInt 0" example_now no_coerce mock_server empty_world
      "PStr ''646180157000000004''" "PInt 10000" "PStr ''payment''"] none
  show ?thesis by simp
qed

end
